theory Spec2Isabelle
  imports Complex_Main
begin

section \<open>JavaScript numbers\<close>

text \<open>
  The services compute on JavaScript numbers.  A number is modelled by the rational it
  denotes, or by one of the three non-finite values that \<^verbatim>\<open>parseFloat\<close> and a
  division by zero produce.  Arithmetic on finite values is exact (the rounding of
  IEEE doubles is not modelled) and the two signed zeros are one value.  The
  operations below follow ECMAScript for the non-finite cases: \<^verbatim>\<open>NaN\<close> is absorbing,
  every comparison with \<^verbatim>\<open>NaN\<close> is false, \<^verbatim>\<open>x / 0\<close> is an infinity or \<^verbatim>\<open>NaN\<close>.
\<close>

datatype jsnum = JNum rat | JPosInf | JNegInf | JNaN

fun js_neg :: "jsnum \<Rightarrow> jsnum" where
  "js_neg (JNum a) = JNum (- a)"
| "js_neg JPosInf = JNegInf"
| "js_neg JNegInf = JPosInf"
| "js_neg JNaN = JNaN"

fun js_add :: "jsnum \<Rightarrow> jsnum \<Rightarrow> jsnum" where
  "js_add (JNum a) (JNum b) = JNum (a + b)"
| "js_add (JNum a) JPosInf = JPosInf"
| "js_add (JNum a) JNegInf = JNegInf"
| "js_add JPosInf (JNum b) = JPosInf"
| "js_add JPosInf JPosInf = JPosInf"
| "js_add JNegInf (JNum b) = JNegInf"
| "js_add JNegInf JNegInf = JNegInf"
| "js_add JPosInf JNegInf = JNaN"
| "js_add JNegInf JPosInf = JNaN"
| "js_add JNaN y = JNaN"
| "js_add x JNaN = JNaN"

definition js_sub :: "jsnum \<Rightarrow> jsnum \<Rightarrow> jsnum" where
  "js_sub x y = js_add x (js_neg y)"

text \<open>The sign of a product with an infinity; zero times infinity is \<^verbatim>\<open>NaN\<close>.\<close>

definition signed_inf :: "rat \<Rightarrow> jsnum" where
  "signed_inf s = (if 0 < s then JPosInf else if s < 0 then JNegInf else JNaN)"

fun js_mul :: "jsnum \<Rightarrow> jsnum \<Rightarrow> jsnum" where
  "js_mul (JNum a) (JNum b) = JNum (a * b)"
| "js_mul (JNum a) JPosInf = signed_inf a"
| "js_mul (JNum a) JNegInf = signed_inf (- a)"
| "js_mul JPosInf (JNum b) = signed_inf b"
| "js_mul JNegInf (JNum b) = signed_inf (- b)"
| "js_mul JPosInf JPosInf = JPosInf"
| "js_mul JPosInf JNegInf = JNegInf"
| "js_mul JNegInf JPosInf = JNegInf"
| "js_mul JNegInf JNegInf = JPosInf"
| "js_mul JNaN y = JNaN"
| "js_mul x JNaN = JNaN"

fun js_div :: "jsnum \<Rightarrow> jsnum \<Rightarrow> jsnum" where
  "js_div (JNum a) (JNum b) = (if b = 0 then signed_inf a else JNum (a / b))"
| "js_div (JNum a) JPosInf = JNum 0"
| "js_div (JNum a) JNegInf = JNum 0"
| "js_div JPosInf (JNum b) = (if b < 0 then JNegInf else JPosInf)"
| "js_div JNegInf (JNum b) = (if b < 0 then JPosInf else JNegInf)"
| "js_div JPosInf JPosInf = JNaN"
| "js_div JPosInf JNegInf = JNaN"
| "js_div JNegInf JPosInf = JNaN"
| "js_div JNegInf JNegInf = JNaN"
| "js_div JNaN y = JNaN"
| "js_div x JNaN = JNaN"

text \<open>\<^verbatim>\<open>x < y\<close> and \<^verbatim>\<open>x <= y\<close>; \<^verbatim>\<open>x > y\<close> is \<open>js_lt y x\<close> and \<^verbatim>\<open>x >= y\<close> is \<open>js_le y x\<close>.\<close>

fun js_lt :: "jsnum \<Rightarrow> jsnum \<Rightarrow> bool" where
  "js_lt (JNum a) (JNum b) = (a < b)"
| "js_lt (JNum a) JPosInf = True"
| "js_lt JNegInf (JNum b) = True"
| "js_lt JNegInf JPosInf = True"
| "js_lt x y = False"

fun js_le :: "jsnum \<Rightarrow> jsnum \<Rightarrow> bool" where
  "js_le (JNum a) (JNum b) = (a \<le> b)"
| "js_le (JNum a) JPosInf = True"
| "js_le JNegInf (JNum b) = True"
| "js_le JNegInf JPosInf = True"
| "js_le JPosInf JPosInf = True"
| "js_le JNegInf JNegInf = True"
| "js_le x y = False"

abbreviation js_gt :: "jsnum \<Rightarrow> jsnum \<Rightarrow> bool" where
  "js_gt x y \<equiv> js_lt y x"

abbreviation js_ge :: "jsnum \<Rightarrow> jsnum \<Rightarrow> bool" where
  "js_ge x y \<equiv> js_le y x"



text \<open>\<^verbatim>\<open>x || 0\<close> on a number: \<^verbatim>\<open>NaN\<close> and zero are falsy.\<close>

fun js_or_zero :: "jsnum \<Rightarrow> jsnum" where
  "js_or_zero JNaN = JNum 0"
| "js_or_zero x = x"

section \<open>Fraud scoring\<close>

text \<open>
  \<^verbatim>\<open>FraudDetectionService\<close>.  A transaction is read through the four values the
  checks use: \<^verbatim>\<open>parseFloat(total_amount)\<close>, \<^verbatim>\<open>customer_id\<close>, the local hour
  \<^verbatim>\<open>new Date(timestamp).getHours()\<close> and the user agent (absent when \<^verbatim>\<open>null\<close> or
  \<^verbatim>\<open>undefined\<close>).  A customer is read through \<^verbatim>\<open>parseFloat(total_spent)\<close> and
  \<^verbatim>\<open>parseFloat(risk_score)\<close>.  A check returns a flag or \<^verbatim>\<open>{ suspicious: false }\<close>,
  here \<open>None\<close>; the message text of a flag is for display and is left out.
\<close>

record transaction =
  total_amount :: jsnum
  customer_id :: nat
  local_hour :: jsnum
  user_agent :: "string option"

record customer =
  total_spent :: jsnum
  risk_score :: jsnum

record flag =
  flag_type :: string
  score :: nat

definition HIGH_AMOUNT :: jsnum where "HIGH_AMOUNT = JNum 5000"
definition VELOCITY_MAX_TRANSACTIONS :: nat where "VELOCITY_MAX_TRANSACTIONS = 5"
definition AMOUNT_DEVIATION_MULTIPLIER :: jsnum where "AMOUNT_DEVIATION_MULTIPLIER = JNum 3"
definition SUSPICIOUS_HOURS_START :: jsnum where "SUSPICIOUS_HOURS_START = JNum 2"
definition SUSPICIOUS_HOURS_END :: jsnum where "SUSPICIOUS_HOURS_END = JNum 5"
definition MAX_VALID_AMOUNT :: jsnum where "MAX_VALID_AMOUNT = JNum 10000"
definition MIN_VALID_AMOUNT :: jsnum where "MIN_VALID_AMOUNT = JNum (1 / 100)"

definition avgSpent :: "customer option \<Rightarrow> jsnum" where
  "avgSpent c = (case c of Some cu \<Rightarrow> js_div (total_spent cu) (JNum 10) | None \<Rightarrow> JNum 500)"

definition checkAmountAnomaly :: "transaction \<Rightarrow> customer option \<Rightarrow> flag option" where
  "checkAmountAnomaly t c =
     (let amount = total_amount t in
      if js_gt amount MAX_VALID_AMOUNT then
        Some \<lparr>flag_type = ''amount_exceeds_limit'', score = 40\<rparr>
      else if js_lt amount MIN_VALID_AMOUNT then
        Some \<lparr>flag_type = ''amount_too_low'', score = 20\<rparr>
      else if js_gt amount (js_mul (avgSpent c) AMOUNT_DEVIATION_MULTIPLIER) then
        Some \<lparr>flag_type = ''amount_deviation'', score = 25\<rparr>
      else if js_gt amount HIGH_AMOUNT then
        Some \<lparr>flag_type = ''high_value'', score = 15\<rparr>
      else None)"

text \<open>
  \<^verbatim>\<open>checkVelocity\<close> awaits \<^verbatim>\<open>Transaction.count\<close>.  The query either resolves to a
  count or rejects; a rejection is not caught in \<^verbatim>\<open>checkVelocity\<close>, so the promise
  it returns rejects with the same error.
\<close>

datatype db_error = QueryFailed string

definition checkVelocity :: "db_error + nat \<Rightarrow> db_error + flag option" where
  "checkVelocity count_result =
     (case count_result of
        Inl e \<Rightarrow> Inl e
      | Inr recentTransactions \<Rightarrow>
          if recentTransactions \<ge> VELOCITY_MAX_TRANSACTIONS then
            Inr (Some \<lparr>flag_type = ''velocity_exceeded'', score = 30\<rparr>)
          else Inr None)"

definition checkTimePattern :: "jsnum \<Rightarrow> flag option" where
  "checkTimePattern hour =
     (if js_ge hour SUSPICIOUS_HOURS_START \<and> js_le hour SUSPICIOUS_HOURS_END then
        Some \<lparr>flag_type = ''unusual_time'', score = 15\<rparr>
      else None)"

definition checkCustomerRisk :: "customer option \<Rightarrow> flag option" where
  "checkCustomerRisk c =
     (case c of
        None \<Rightarrow> Some \<lparr>flag_type = ''unknown_customer'', score = 20\<rparr>
      | Some cu \<Rightarrow>
          if js_ge (risk_score cu) (JNum (7 / 10)) then
            Some \<lparr>flag_type = ''high_risk_customer'', score = 25\<rparr>
          else None)"

text \<open>
  The bot patterns are case-insensitive literals, so a test is a substring search on
  the lower-cased user agent.  Without the \<^verbatim>\<open>u\<close> flag only ASCII letters fold onto
  ASCII letters.
\<close>

definition lower_char :: "char \<Rightarrow> char" where
  "lower_char c =
     (let n = (of_char c :: nat) in if 65 \<le> n \<and> n \<le> 90 then char_of (n + 32) else c)"

fun is_prefix :: "string \<Rightarrow> string \<Rightarrow> bool" where
  "is_prefix [] ys = True"
| "is_prefix (x # xs) [] = False"
| "is_prefix (x # xs) (y # ys) = (x = y \<and> is_prefix xs ys)"

fun contains :: "string \<Rightarrow> string \<Rightarrow> bool" where
  "contains pat [] = is_prefix pat []"
| "contains pat (y # ys) = (is_prefix pat (y # ys) \<or> contains pat ys)"

definition botPatterns :: "string list" where
  "botPatterns =
     [''bot'', ''crawler'', ''spider'', ''curl'', ''wget'', ''python'', ''java/'', ''php'']"

definition checkForBot :: "string option \<Rightarrow> flag option" where
  "checkForBot ua =
     (case ua of
        None \<Rightarrow> Some \<lparr>flag_type = ''missing_user_agent'', score = 15\<rparr>
      | Some u \<Rightarrow>
          if u = [] then Some \<lparr>flag_type = ''missing_user_agent'', score = 15\<rparr>
          else if list_ex (\<lambda>pat. contains pat (map lower_char u)) botPatterns then
            Some \<lparr>flag_type = ''bot_detected'', score = 20\<rparr>
          else None)"

definition getSeverity :: "rat \<Rightarrow> string" where
  "getSeverity fraudScore =
     (if fraudScore \<ge> 8 / 10 then ''critical''
      else if fraudScore \<ge> 6 / 10 then ''high''
      else if fraudScore \<ge> 4 / 10 then ''medium''
      else ''low'')"

record analysis =
  fraudScore :: rat
  flags :: "flag list"
  isSuspicious :: bool
  severity :: string

text \<open>
  One step of \<^verbatim>\<open>analyzeTransaction\<close>: a suspicious check is pushed onto \<^verbatim>\<open>flags\<close> and
  its score is added to the running sum.
\<close>

definition add_check :: "flag option \<Rightarrow> flag list \<times> nat \<Rightarrow> flag list \<times> nat" where
  "add_check chk acc =
     (case chk of
        None \<Rightarrow> acc
      | Some f \<Rightarrow> (fst acc @ [f], snd acc + score f))"

text \<open>
  The sum of points is an integer, so \<^verbatim>\<open>fraudScore / 100\<close> is the double nearest to
  a multiple of one hundredth and compares with \<^verbatim>\<open>0.4\<close>, \<^verbatim>\<open>0.5\<close>, \<^verbatim>\<open>0.6\<close>, \<^verbatim>\<open>0.8\<close>
  and \<^verbatim>\<open>1\<close> as the rational does.  The second argument is the outcome of the velocity
  query; nothing in \<^verbatim>\<open>analyzeTransaction\<close> catches its rejection.
\<close>

definition analyzeTransaction ::
  "transaction \<Rightarrow> customer option \<Rightarrow> db_error + nat \<Rightarrow> db_error + analysis" where
  "analyzeTransaction t c count_result =
     (let acc1 = add_check (checkAmountAnomaly t c) ([], 0) in
      case checkVelocity count_result of
        Inl e \<Rightarrow> Inl e
      | Inr velocityCheck \<Rightarrow>
          (let acc2 = add_check velocityCheck acc1;
               acc3 = add_check (checkTimePattern (local_hour t)) acc2;
               acc4 = add_check (checkCustomerRisk c) acc3;
               acc5 = add_check (checkForBot (user_agent t)) acc4;
               fraudScore = min (of_nat (snd acc5) / 100) 1
           in Inr \<lparr>fraudScore = fraudScore,
                    flags = fst acc5,
                    isSuspicious = (fraudScore \<ge> 1 / 2),
                    severity = getSeverity fraudScore\<rparr>))"

text \<open>
  Reading a check's result: the points it adds to the sum and the flags it pushes.
  \<open>velocity_flag\<close> is the velocity check on a resolved count, \<open>fraud_points\<close> the sum
  of the five checks in the order \<^verbatim>\<open>analyzeTransaction\<close> runs them, and
  \<open>capped_score\<close> the normalisation \<^verbatim>\<open>Math.min(fraudScore / 100, 1)\<close>.
\<close>

definition points :: "flag option \<Rightarrow> nat" where
  "points chk = (case chk of None \<Rightarrow> 0 | Some f \<Rightarrow> score f)"

definition raised :: "flag option \<Rightarrow> flag list" where
  "raised chk = (case chk of None \<Rightarrow> [] | Some f \<Rightarrow> [f])"

definition velocity_flag :: "nat \<Rightarrow> flag option" where
  "velocity_flag n =
     (if 5 \<le> n then Some \<lparr>flag_type = ''velocity_exceeded'', score = 30\<rparr> else None)"

definition fraud_points :: "transaction \<Rightarrow> customer option \<Rightarrow> nat \<Rightarrow> nat" where
  "fraud_points t c n =
     points (checkAmountAnomaly t c) + points (velocity_flag n) +
     points (checkTimePattern (local_hour t)) + points (checkCustomerRisk c) +
     points (checkForBot (user_agent t))"

definition capped_score :: "nat \<Rightarrow> rat" where
  "capped_score pts = min (of_nat pts / 100) 1"




section \<open>Inventory forecasting\<close>



subsection \<open>Stock prediction\<close>
















subsection \<open>Reorder suggestions\<close>

text \<open>
  \<^verbatim>\<open>generateReorderSuggestions\<close> reads the products whose stock is at most 50 and,
  in one grouped query, the units of each sold in the last thirty days.  A row of
  that query is a product id with \<^verbatim>\<open>parseInt(sale.totalSold || 0)\<close>.
\<close>

definition REORDER_LEAD_DAYS :: int where "REORDER_LEAD_DAYS = 7"
















section \<open>Cache statistics and rate limiting\<close>

subsection \<open>Rate limiter\<close>

text \<open>
  \<^verbatim>\<open>rateLimitStore\<close> maps a client key to its entry.  Times are milliseconds.  One
  call of the middleware takes the key, the time \<^verbatim>\<open>Date.now()\<close> and the store, and
  returns the store as updated together with what the client is told: the request is
  passed on (\<^verbatim>\<open>next()\<close>) with the \<^verbatim>\<open>X-RateLimit-Remaining\<close> header, or answered
  with status 429 and a \<^verbatim>\<open>Retry-After\<close> in whole seconds.
\<close>

record entry =
  count :: nat
  resetTime :: int

datatype outcome = Passed int | TooManyRequests int

definition rateLimiter ::
  "int \<Rightarrow> int \<Rightarrow> 'k \<Rightarrow> int \<Rightarrow> ('k \<rightharpoonup> entry) \<Rightarrow> ('k \<rightharpoonup> entry) \<times> outcome" where
  "rateLimiter windowMs maxRequests key now store =
     (let fresh = \<lparr>count = 0, resetTime = now + windowMs\<rparr>;
          found = (case store key of
                     None \<Rightarrow> fresh
                   | Some e \<Rightarrow> if now > resetTime e then fresh else e);
          counted = found\<lparr>count := count found + 1\<rparr>;
          store' = store(key \<mapsto> counted)
      in if int (count counted) > maxRequests then
           (store', TooManyRequests \<lceil>(of_int (resetTime counted - now) :: rat) / 1000\<rceil>)
         else
           (store', Passed (max 0 (maxRequests - int (count counted)))))"

text \<open>A sequence of calls, each a key and the time of the call, in order.\<close>

fun serve ::
  "int \<Rightarrow> int \<Rightarrow> ('k \<times> int) list \<Rightarrow> ('k \<rightharpoonup> entry) \<Rightarrow> ('k \<rightharpoonup> entry) \<times> outcome list" where
  "serve windowMs maxRequests [] store = (store, [])"
| "serve windowMs maxRequests ((key, now) # calls) store =
     (let (store', out) = rateLimiter windowMs maxRequests key now store;
          (store'', outs) = serve windowMs maxRequests calls store'
      in (store'', out # outs))"

text \<open>
  The periodic clean-up of the store, run at time \<open>now\<close>: entries whose window has
  ended are deleted.
\<close>

definition sweep :: "int \<Rightarrow> ('k \<rightharpoonup> entry) \<Rightarrow> ('k \<rightharpoonup> entry)" where
  "sweep now store =
     (\<lambda>key. case store key of
              None \<Rightarrow> None
            | Some e \<Rightarrow> if now > resetTime e then None else Some e)"

text \<open>
  The specification's reading of one call: whether a new window opens, and the entry
  after the call.
\<close>

definition opens_window :: "('k \<rightharpoonup> entry) \<Rightarrow> 'k \<Rightarrow> int \<Rightarrow> bool" where
  "opens_window store key now =
     (case store key of None \<Rightarrow> True | Some e \<Rightarrow> resetTime e < now)"

definition spec_entry_after :: "int \<Rightarrow> ('k \<rightharpoonup> entry) \<Rightarrow> 'k \<Rightarrow> int \<Rightarrow> entry" where
  "spec_entry_after windowMs store key now =
     (if opens_window store key now then \<lparr>count = 1, resetTime = now + windowMs\<rparr>
      else (the (store key))\<lparr>count := count (the (store key)) + 1\<rparr>)"

subsection \<open>Cache statistics\<close>

text \<open>
  \<^verbatim>\<open>cacheStats\<close> is counted by the cache middleware: a request whose cached response
  is found (truthy) counts a hit, any other a miss, and a response that is then stored
  counts a set.  \<^verbatim>\<open>cacheManager.stats()\<close> reports the counters and the hit rate
  \<^verbatim>\<open>hits / (hits + misses) || 0\<close>; the fields of the cache library's own statistics
  are left out.
\<close>

record cacheStats =
  hits :: nat
  misses :: nat
  sets :: nat

definition initialStats :: cacheStats where
  "initialStats = \<lparr>hits = 0, misses = 0, sets = 0\<rparr>"

definition countLookup :: "bool \<Rightarrow> cacheStats \<Rightarrow> cacheStats" where
  "countLookup found st = (if found then st\<lparr>hits := hits st + 1\<rparr> else st\<lparr>misses := misses st + 1\<rparr>)"

definition countSet :: "cacheStats \<Rightarrow> cacheStats" where
  "countSet st = st\<lparr>sets := sets st + 1\<rparr>"

record statsReport =
  reportedHits :: nat
  reportedMisses :: nat
  reportedSets :: nat
  hitRate :: jsnum

definition stats :: "cacheStats \<Rightarrow> statsReport" where
  "stats st =
     \<lparr>reportedHits = hits st,
      reportedMisses = misses st,
      reportedSets = sets st,
      hitRate = js_or_zero (js_div (JNum (of_nat (hits st))) (JNum (of_nat (hits st + misses st))))\<rparr>"

section \<open>Customer analytics\<close>

text \<open>
  \<^verbatim>\<open>CustomerAnalyticsService\<close>.  A customer comes with the completed transactions
  the query includes (\<^verbatim>\<open>customer.Transactions || []\<close>).  A transaction is read
  through the time of its \<^verbatim>\<open>timestamp\<close> in milliseconds and
  \<^verbatim>\<open>parseFloat(total_amount)\<close>, a finite decimal.  The clock \<^verbatim>\<open>Date.now()\<close> is the
  argument \<open>now\<close>.
\<close>

record completed_tx =
  tx_timestamp :: int
  tx_amount :: rat

record customer_history =
  customerId :: nat
  loyalty_tier :: string
  Transactions :: "completed_tx list"

definition msPerDay :: int where
  "msPerDay = 1000 * 60 * 60 * 24"

text \<open>The callbacks of the two \<^verbatim>\<open>reduce\<close> calls that find the last and the first purchase.\<close>

definition later :: "completed_tx \<Rightarrow> completed_tx \<Rightarrow> completed_tx" where
  "later latest t = (if tx_timestamp t > tx_timestamp latest then t else latest)"

definition earlier :: "completed_tx \<Rightarrow> completed_tx \<Rightarrow> completed_tx" where
  "earlier earliest t = (if tx_timestamp t < tx_timestamp earliest then t else earliest)"

subsection \<open>Churn risk\<close>

text \<open>Decimal digits of a number, and \<^verbatim>\<open>(p * 100).toFixed(0) + '%'\<close>.\<close>

definition digit :: "nat \<Rightarrow> char" where
  "digit n = ''0123456789'' ! n"

fun decimal :: "nat \<Rightarrow> string" where
  "decimal n = (if n < 10 then [digit n] else decimal (n div 10) @ [digit (n mod 10)])"

definition percentText :: "rat \<Rightarrow> string" where
  "percentText p = decimal (nat \<lfloor>p * 100 + 1 / 2\<rfloor>) @ ''%''"

definition getSuggestedAction :: "string \<Rightarrow> string \<Rightarrow> string" where
  "getSuggestedAction level tier =
     (if level = ''critical'' then
        (if tier = ''platinum'' \<or> tier = ''gold''
         then ''Personal outreach with exclusive VIP offer''
         else ''Send win-back email with 20% discount'')
      else if level = ''high'' then
        ''Send re-engagement email with personalized recommendations''
      else ''Include in next promotional campaign'')"

record churn_entry =
  atRiskCustomer :: nat
  totalSpent :: rat
  transactionCount :: nat
  daysSinceLastPurchase :: int
  avgDaysBetweenPurchases :: int
  churnProbability :: string
  riskLevel :: string
  suggestedAction :: string

text \<open>
  The body of the loop over the customers: the entry pushed for a customer, if any.
  \<^verbatim>\<open>Math.floor\<close> of a quotient of integers is the integer quotient \<open>div\<close>.
\<close>

definition churnEntry :: "int \<Rightarrow> customer_history \<Rightarrow> churn_entry option" where
  "churnEntry now c =
     (case Transactions c of
        [] \<Rightarrow> None
      | t0 # rest \<Rightarrow>
          (let lastTransaction = foldl later t0 rest;
               lastPurchaseDate = tx_timestamp lastTransaction;
               daysSince = (now - lastPurchaseDate) div msPerDay
           in if length (Transactions c) < 2 then None
              else
                (let firstPurchase = foldl earlier t0 rest;
                     avgDays = (lastPurchaseDate - tx_timestamp firstPurchase) div
                               (msPerDay * (int (length (Transactions c)) - 1));
                     (probability, level) =
                       (if (of_int daysSince :: rat) > of_int avgDays * 3 then (9 / 10, ''critical'')
                        else if (of_int daysSince :: rat) > of_int avgDays * 2 then (7 / 10, ''high'')
                        else if (of_int daysSince :: rat) > of_int avgDays * (3 / 2)
                          then (4 / 10, ''medium'')
                        else (0, ''low''))
                 in if probability \<ge> (4 / 10 :: rat) then
                      Some \<lparr>atRiskCustomer = customerId c,
                            totalSpent = sum_list (map tx_amount (Transactions c)),
                            transactionCount = length (Transactions c),
                            daysSinceLastPurchase = daysSince,
                            avgDaysBetweenPurchases = avgDays,
                            churnProbability = percentText probability,
                            riskLevel = level,
                            suggestedAction = getSuggestedAction level (loyalty_tier c)\<rparr>
                    else None)))"

definition riskOrder :: "string \<Rightarrow> nat" where
  "riskOrder level = (if level = ''critical'' then 0 else if level = ''high'' then 1 else 2)"

record churn_report =
  totalAtRisk :: nat
  criticalAtRisk :: nat
  highAtRisk :: nat
  mediumAtRisk :: nat
  atRisk :: "churn_entry list"

definition identifyChurnRisk :: "int \<Rightarrow> customer_history list \<Rightarrow> churn_report" where
  "identifyChurnRisk now customers =
     (let churnRisk = sort_key (\<lambda>e. riskOrder (riskLevel e))
                        (List.map_filter (churnEntry now) customers)
      in \<lparr>totalAtRisk = length churnRisk,
           criticalAtRisk = length (filter (\<lambda>e. riskLevel e = ''critical'') churnRisk),
           highAtRisk = length (filter (\<lambda>e. riskLevel e = ''high'') churnRisk),
           mediumAtRisk = length (filter (\<lambda>e. riskLevel e = ''medium'') churnRisk),
           atRisk = churnRisk\<rparr>)"

text \<open>
  The tiers in the words of the specification: the ratio of the days since the last
  purchase to the average interval, which is the span between the first and the last
  purchase divided by the number of transactions less one.
\<close>

definition lastPurchaseOf :: "customer_history \<Rightarrow> int" where
  "lastPurchaseOf c = Max (tx_timestamp ` set (Transactions c))"

definition firstPurchaseOf :: "customer_history \<Rightarrow> int" where
  "firstPurchaseOf c = Min (tx_timestamp ` set (Transactions c))"

definition spec_churn_ratio :: "int \<Rightarrow> customer_history \<Rightarrow> rat" where
  "spec_churn_ratio now c =
     (of_int (now - lastPurchaseOf c) / of_int msPerDay) /
     ((of_int (lastPurchaseOf c - firstPurchaseOf c) / of_int msPerDay) /
      (of_nat (length (Transactions c)) - 1))"

definition spec_churn_tier :: "rat \<Rightarrow> (string \<times> rat) option" where
  "spec_churn_tier r =
     (if r > 3 then Some (''critical'', 9 / 10)
      else if r > 2 then Some (''high'', 7 / 10)
      else if r > 3 / 2 then Some (''medium'', 4 / 10)
      else None)"

text \<open>The two whole numbers of days the code compares.\<close>

definition wholeDaysSince :: "int \<Rightarrow> customer_history \<Rightarrow> int" where
  "wholeDaysSince now c = (now - lastPurchaseOf c) div msPerDay"

definition wholeDaysBetween :: "customer_history \<Rightarrow> int" where
  "wholeDaysBetween c =
     (lastPurchaseOf c - firstPurchaseOf c) div (msPerDay * (int (length (Transactions c)) - 1))"

subsection \<open>RFM segmentation\<close>

text \<open>
  A property of a row of \<^verbatim>\<open>rfmData\<close> is absent (\<^verbatim>\<open>undefined\<close> when read), \<^verbatim>\<open>null\<close>
  or a value.  The row pushed for a customer without transactions has the property
  \<^verbatim>\<open>recency: null\<close> and no property \<^verbatim>\<open>recencyDays\<close>; the row pushed for any other
  customer has \<^verbatim>\<open>recencyDays\<close> and no \<^verbatim>\<open>recency\<close>.  \<^verbatim>\<open>monetary\<close> is the number
  \<^verbatim>\<open>parseFloat(row.monetary)\<close>: 0, or the sum rounded to two decimals by \<^verbatim>\<open>toFixed(2)\<close>.
\<close>

datatype 'a jsval = Undefined | Null | Value 'a

record rfm_row =
  rowCustomer :: nat
  recency :: "int jsval"
  recencyDays :: "int jsval"
  frequency :: nat
  monetary :: rat
  rfmScore :: "string option"
  totalScore :: "nat option"
  segment :: "string option"

definition toFixed2 :: "rat \<Rightarrow> rat" where
  "toFixed2 x =
     (if x < 0 then - (of_int \<lfloor>- x * 100 + 1 / 2\<rfloor> / 100) else of_int \<lfloor>x * 100 + 1 / 2\<rfloor> / 100)"

definition firstPass :: "int \<Rightarrow> customer_history \<Rightarrow> rfm_row" where
  "firstPass now c =
     (case Transactions c of
        [] \<Rightarrow>
          \<lparr>rowCustomer = customerId c, recency = Null, recencyDays = Undefined,
           frequency = 0, monetary = 0, rfmScore = Some ''111'', totalScore = None,
           segment = Some ''Lost''\<rparr>
      | t0 # rest \<Rightarrow>
          (let lastPurchase = foldl later t0 rest;
               days = (now - tx_timestamp lastPurchase) div msPerDay
           in \<lparr>rowCustomer = customerId c, recency = Undefined, recencyDays = Value days,
                frequency = length (Transactions c),
                monetary = toFixed2 (foldl (\<lambda>sum t. sum + tx_amount t) 0 (Transactions c)),
                rfmScore = None, totalScore = None, segment = None\<rparr>))"

text \<open>
  The arrays handed to \<^verbatim>\<open>getPercentile\<close> hold numbers and \<^verbatim>\<open>undefined\<close>, here
  \<open>None\<close>.  \<^verbatim>\<open>sort\<close> puts every \<^verbatim>\<open>undefined\<close> after the numbers, whatever the
  comparator; \<^verbatim>\<open>v >= val\<close> is false when either side is \<^verbatim>\<open>undefined\<close>, and
  \<^verbatim>\<open>findIndex\<close> answers -1 when no element passes.
\<close>

definition jsSort :: "rat option list \<Rightarrow> rat option list" where
  "jsSort arr = map Some (sort (List.map_filter (\<lambda>v. v) arr)) @ filter (\<lambda>v. v = None) arr"

definition geValue :: "rat option \<Rightarrow> rat option \<Rightarrow> bool" where
  "geValue v val =
     (case v of None \<Rightarrow> False | Some a \<Rightarrow> (case val of None \<Rightarrow> False | Some b \<Rightarrow> a \<ge> b))"

fun findIndex :: "('a \<Rightarrow> bool) \<Rightarrow> 'a list \<Rightarrow> int" where
  "findIndex P [] = - 1"
| "findIndex P (x # xs) =
     (if P x then 0 else (let i = findIndex P xs in if i < 0 then - 1 else i + 1))"

definition getPercentile :: "rat option list \<Rightarrow> rat option \<Rightarrow> bool \<Rightarrow> jsnum" where
  "getPercentile arr val inverted =
     (let sorted = jsSort arr;
          index = findIndex (\<lambda>v. geValue v val) sorted;
          percentile = js_mul (js_div (JNum (of_int index)) (JNum (of_nat (length sorted))))
                         (JNum 100)
      in if inverted then js_sub (JNum 100) percentile else percentile)"

definition getScore :: "jsnum \<Rightarrow> nat" where
  "getScore percentile =
     (if js_ge percentile (JNum 80) then 5
      else if js_ge percentile (JNum 60) then 4
      else if js_ge percentile (JNum 40) then 3
      else if js_ge percentile (JNum 20) then 2
      else 1)"

definition assignSegment :: "nat \<Rightarrow> nat \<Rightarrow> nat \<Rightarrow> string" where
  "assignSegment r f m =
     (if r \<ge> 4 \<and> f \<ge> 4 \<and> m \<ge> 4 then ''Champions''
      else if r \<ge> 4 \<and> f \<ge> 3 \<and> m \<ge> 3 then ''Loyal Customers''
      else if r \<ge> 4 \<and> f \<le> 2 then ''New Customers''
      else if r \<ge> 3 \<and> f \<ge> 3 \<and> m \<ge> 3 then ''Potential Loyalists''
      else if r \<le> 2 \<and> f \<ge> 4 \<and> m \<ge> 4 then ''At Risk''
      else if r \<le> 2 \<and> f \<ge> 2 \<and> m \<ge> 2 then ''Need Attention''
      else if r \<le> 2 \<and> f \<le> 2 \<and> m \<le> 2 then ''Lost''
      else if m \<ge> 4 then ''Big Spenders''
      else ''Others'')"

text \<open>A property read as a number in a comparison: \<^verbatim>\<open>null\<close> converts to 0.\<close>

definition asNumber :: "int jsval \<Rightarrow> rat option" where
  "asNumber v = (case v of Undefined \<Rightarrow> None | Null \<Rightarrow> Some 0 | Value d \<Rightarrow> Some (of_int d))"

text \<open>
  The body of the second loop.  Its guard \<^verbatim>\<open>customer.recencyDays === null\<close> is a
  strict comparison, which an absent property does not pass.
\<close>

definition scoreRow ::
  "rat option list \<Rightarrow> rat option list \<Rightarrow> rat option list \<Rightarrow> rfm_row \<Rightarrow> rfm_row" where
  "scoreRow recencyValues frequencyValues monetaryValues row =
     (if recencyDays row = Null then row
      else
        (let rScore = getScore (getPercentile recencyValues (asNumber (recencyDays row)) True);
             fScore = getScore (getPercentile frequencyValues (Some (of_nat (frequency row))) False);
             mScore = getScore (getPercentile monetaryValues (Some (monetary row)) False)
         in row\<lparr>rfmScore := Some (decimal rScore @ decimal fScore @ decimal mScore),
                totalScore := Some (rScore + fScore + mScore),
                segment := Some (assignSegment rScore fScore mScore)\<rparr>))"

text \<open>Grouping by segment: the count and the rows of each segment, in order.\<close>

fun groupSegments ::
  "rfm_row list \<Rightarrow> (string option \<rightharpoonup> nat \<times> rfm_row list) \<Rightarrow>
     (string option \<rightharpoonup> nat \<times> rfm_row list)" where
  "groupSegments [] segments = segments"
| "groupSegments (row # rows) segments =
     (let (n, members) = (case segments (segment row) of None \<Rightarrow> (0, []) | Some g \<Rightarrow> g)
      in groupSegments rows (segments(segment row \<mapsto> (n + 1, members @ [row]))))"

record rfm_report =
  totalCustomers :: nat
  rfmData :: "rfm_row list"
  segments :: "string option \<rightharpoonup> nat \<times> rfm_row list"
  topCustomers :: "rfm_row list"

definition performRFMAnalysis :: "int \<Rightarrow> customer_history list \<Rightarrow> rfm_report" where
  "performRFMAnalysis now customers =
     (let pushed = map (firstPass now) customers;
          recencyValues = map (\<lambda>r. asNumber (recencyDays r))
                            (filter (\<lambda>r. recencyDays r \<noteq> Null) pushed);
          frequencyValues = map (\<lambda>r. Some (of_nat (frequency r))) pushed;
          monetaryValues = map (\<lambda>r. Some (monetary r)) pushed;
          scored = map (scoreRow recencyValues frequencyValues monetaryValues) pushed
      in \<lparr>totalCustomers = length scored,
           rfmData = scored,
           segments = groupSegments scored Map.empty,
           topCustomers =
             take 20 (sort_key (\<lambda>r. - int (case totalScore r of None \<Rightarrow> 0 | Some t \<Rightarrow> t))
                        (filter (\<lambda>r. case totalScore r of None \<Rightarrow> False | Some t \<Rightarrow> t \<noteq> 0)
                           scored))\<rparr>)"


section \<open>Properties of the number model\<close>

lemma js_neg_neg: "js_neg (js_neg x) = x"
  by (cases x) simp_all


text \<open>Rounding a quotient of numerals, for evaluating the model on concrete inputs.\<close>

lemma floor_rat_numeral: "\<lfloor>numeral a / numeral b :: rat\<rfloor> = numeral a div numeral b"
  by (metis floor_divide_of_int_eq of_int_numeral)

lemma floor_rat_neg_numeral:
  "\<lfloor>- (numeral a / numeral b) :: rat\<rfloor> = - numeral a div numeral b"
  by (metis floor_divide_of_int_eq of_int_numeral of_int_minus minus_divide_left)

lemma ceiling_rat_numeral: "\<lceil>numeral a / numeral b :: rat\<rceil> = - (- numeral a div numeral b)"
  by (simp add: ceiling_def floor_rat_neg_numeral)

lemma ceiling_rat_neg_numeral:
  "\<lceil>- (numeral a / numeral b) :: rat\<rceil> = - (numeral a div numeral b)"
  by (simp add: ceiling_def floor_rat_numeral)

lemmas rat_rounding =
  floor_rat_numeral floor_rat_neg_numeral ceiling_rat_numeral ceiling_rat_neg_numeral

section \<open>Properties of fraud scoring\<close>

lemma add_check_eq: "add_check chk acc = (fst acc @ raised chk, snd acc + points chk)"
  by (cases chk) (simp_all add: add_check_def raised_def points_def)

text \<open>When the velocity query resolves, the analysis is returned and reads as follows.\<close>

lemma analyze_resolved:
  "analyzeTransaction t c (Inr n) =
     Inr \<lparr>fraudScore = capped_score (fraud_points t c n),
          flags = raised (checkAmountAnomaly t c) @ raised (velocity_flag n) @
              raised (checkTimePattern (local_hour t)) @ raised (checkCustomerRisk c) @
              raised (checkForBot (user_agent t)),
          isSuspicious = (capped_score (fraud_points t c n) \<ge> 1 / 2),
          severity = getSeverity (capped_score (fraud_points t c n))\<rparr>"
  unfolding analyzeTransaction_def checkVelocity_def add_check_eq Let_def
    capped_score_def [symmetric]
  by (simp add: velocity_flag_def VELOCITY_MAX_TRANSACTIONS_def fraud_points_def add.assoc)

lemma capped_score_range: "0 \<le> capped_score pts \<and> capped_score pts \<le> 1"
  by (simp add: capped_score_def)

lemma getSeverity_buckets:
  "(getSeverity x = ''critical'') = (8 / 10 \<le> x)"
  "(getSeverity x = ''high'') = (6 / 10 \<le> x \<and> x < 8 / 10)"
  "(getSeverity x = ''medium'') = (4 / 10 \<le> x \<and> x < 6 / 10)"
  "(getSeverity x = ''low'') = (x < 4 / 10)"
  by (auto simp: getSeverity_def)

text \<open>
  Claim C1.  For every transaction and customer (the customer possibly absent) and
  every count the velocity query resolves to, the analysis is returned with a
  \<open>fraudScore\<close> between 0 and 1; \<open>isSuspicious\<close> holds exactly when the score is at
  least 0.5; and the severity is \<open>critical\<close> exactly from 0.8, \<open>high\<close> exactly on
  [0.6, 0.8), \<open>medium\<close> exactly on [0.4, 0.6) and \<open>low\<close> exactly below 0.4.
\<close>

theorem fraud_score_range_and_severity:
  "\<exists>r. analyzeTransaction t c (Inr n) = Inr r \<and>
     0 \<le> fraudScore r \<and> fraudScore r \<le> 1 \<and>
     isSuspicious r = (fraudScore r \<ge> 1 / 2) \<and>
     (severity r = ''critical'' \<longleftrightarrow> fraudScore r \<ge> 8 / 10) \<and>
     (severity r = ''high'' \<longleftrightarrow> 6 / 10 \<le> fraudScore r \<and> fraudScore r < 8 / 10) \<and>
     (severity r = ''medium'' \<longleftrightarrow> 4 / 10 \<le> fraudScore r \<and> fraudScore r < 6 / 10) \<and>
     (severity r = ''low'' \<longleftrightarrow> fraudScore r < 4 / 10)"
  by (simp only: analyze_resolved sum.inject ex_simps simp_thms analysis.simps
      capped_score_range getSeverity_buckets)


text \<open>
  Claim C3, as stated, fails: when the velocity query rejects, no analysis is
  returned.  The rejection leaves \<^verbatim>\<open>checkVelocity\<close> and \<^verbatim>\<open>analyzeTransaction\<close>
  uncaught, here for a transaction of an unknown customer.
\<close>

theorem velocity_failure_aborts_scoring:
  "analyzeTransaction
     \<lparr>total_amount = JNum 15000, customer_id = 7, local_hour = JNum 3, user_agent = None\<rparr>
     None (Inl (QueryFailed ''SequelizeConnectionError'')) =
   Inl (QueryFailed ''SequelizeConnectionError'')"
  by (simp add: analyzeTransaction_def checkVelocity_def Let_def)

text \<open>
  Claim C3, amended.  A rejected velocity query is propagated out of the scoring call
  unchanged, whatever the other checks found; a resolved one yields the analysis whose
  score is the capped sum of all five checks and whose flags are theirs in the order
  amount, velocity, time, customer risk, bot.
\<close>

theorem velocity_failure_propagates:
  "analyzeTransaction t c (Inl e) = Inl e \<and>
   (\<exists>r. analyzeTransaction t c (Inr n) = Inr r \<and>
      fraudScore r = capped_score (fraud_points t c n) \<and>
      flags r = raised (checkAmountAnomaly t c) @ raised (velocity_flag n) @
        raised (checkTimePattern (local_hour t)) @ raised (checkCustomerRisk c) @
        raised (checkForBot (user_agent t)))"
  by (simp add: analyze_resolved) (simp add: analyzeTransaction_def checkVelocity_def Let_def)

section \<open>Properties of stock prediction\<close>

















section \<open>Properties of reorder suggestions\<close>



lemma set_map_filter: "set (List.map_filter f xs) = {y. \<exists>x \<in> set xs. f x = Some y}"
  by (induction xs) (auto split: option.splits)




section \<open>Properties of the rate limiter and the cache statistics\<close>

lemma rateLimiter_step:
  "rateLimiter W M k now s =
     (s(k \<mapsto> spec_entry_after W s k now),
      if int (count (spec_entry_after W s k now)) > M
      then TooManyRequests
             \<lceil>(of_int (resetTime (spec_entry_after W s k now) - now) :: rat) / 1000\<rceil>
      else Passed (max 0 (M - int (count (spec_entry_after W s k now)))))"
  by (simp add: rateLimiter_def spec_entry_after_def opens_window_def Let_def
      split: option.splits)

text \<open>Calls of other clients leave a client's entry as it is.\<close>

lemma serve_other_key:
  "k' \<notin> fst ` set calls \<Longrightarrow> fst (serve W M calls s) k' = s k'"
proof (induction calls arbitrary: s)
  case Nil
  show ?case by simp
next
  case (Cons c calls)
  obtain k now where c: "c = (k, now)" by (cases c)
  with Cons.prems have other: "k' \<noteq> k" and rest: "k' \<notin> fst ` set calls" by auto
  have "fst (serve W M (c # calls) s) = fst (serve W M calls (fst (rateLimiter W M k now s)))"
    by (simp add: c split_beta)
  moreover have "fst (serve W M calls (fst (rateLimiter W M k now s))) k' =
      fst (rateLimiter W M k now s) k'"
    using rest by (rule Cons.IH)
  moreover have "fst (rateLimiter W M k now s) k' = s k'"
    using other by (simp add: rateLimiter_step)
  ultimately show ?case by simp
qed

lemma outcome_depends_on_own_entry:
  "s k = s' k \<Longrightarrow> snd (rateLimiter W M k now s) = snd (rateLimiter W M k now s')"
  by (simp add: rateLimiter_step spec_entry_after_def opens_window_def)

text \<open>
  A clean-up changes nothing for the calls that follow it: the entries it deletes are
  those a later call would replace.
\<close>

lemma sweep_keeps_answers:
  assumes "t' \<le> t"
  shows "snd (rateLimiter W M k t (sweep t' s)) = snd (rateLimiter W M k t s)"
    and "fst (rateLimiter W M k t (sweep t' s)) k = fst (rateLimiter W M k t s) k"
  using assms
  by (auto simp: rateLimiter_step spec_entry_after_def opens_window_def sweep_def
      split: option.splits)

text \<open>
  Claim C5.  A call opens a new window, ending one window length after the call, when
  the client has no entry or its window has elapsed, and counts 1; otherwise it adds 1
  to the count of the window.  The call is rejected exactly when the count after the
  call exceeds the maximum, with a retry-after of the time left in the window, in
  seconds rounded up.  With a maximum of 3, four calls of one client of which the
  first opens a window and the last falls before the end of that window are answered
  passed, passed, passed, rejected with a positive retry-after; what another client
  is answered is the same as if those four calls had not been made.
\<close>

theorem fixed_window_rate_limit:
  assumes "opens_window s k t1" and "t1 \<le> t2" and "t2 \<le> t3" and "t3 \<le> t4"
    and "t4 < t1 + W" and "k' \<noteq> k"
  shows "rateLimiter W' M key now st =
           (st(key \<mapsto> spec_entry_after W' st key now),
            if int (count (spec_entry_after W' st key now)) > M
            then TooManyRequests
                   \<lceil>(of_int (resetTime (spec_entry_after W' st key now) - now) :: rat) / 1000\<rceil>
            else Passed (max 0 (M - int (count (spec_entry_after W' st key now))))) \<and>
         snd (serve W 3 [(k, t1), (k, t2), (k, t3), (k, t4)] s) =
           [Passed 2, Passed 1, Passed 0,
            TooManyRequests \<lceil>(of_int (t1 + W - t4) :: rat) / 1000\<rceil>] \<and>
         0 < \<lceil>(of_int (t1 + W - t4) :: rat) / 1000\<rceil> \<and>
         snd (rateLimiter W 3 k' t (fst (serve W 3 [(k, t1), (k, t2), (k, t3), (k, t4)] s))) =
           snd (rateLimiter W 3 k' t s)"
proof -
  have step: "rateLimiter W' M key now st =
           (st(key \<mapsto> spec_entry_after W' st key now),
            if int (count (spec_entry_after W' st key now)) > M
            then TooManyRequests
                   \<lceil>(of_int (resetTime (spec_entry_after W' st key now) - now) :: rat) / 1000\<rceil>
            else Passed (max 0 (M - int (count (spec_entry_after W' st key now)))))"
    by (rule rateLimiter_step)
  have four: "snd (serve W 3 [(k, t1), (k, t2), (k, t3), (k, t4)] s) =
           [Passed 2, Passed 1, Passed 0,
            TooManyRequests \<lceil>(of_int (t1 + W - t4) :: rat) / 1000\<rceil>]"
    using assms(1-5)
    by (simp add: rateLimiter_step spec_entry_after_def opens_window_def Let_def
        split: option.splits)
  have positive: "0 < \<lceil>(of_int (t1 + W - t4) :: rat) / 1000\<rceil>"
    using assms(5) by (simp add: ceiling_less_iff)
  have "k' \<notin> fst ` set [(k, t1), (k, t2), (k, t3), (k, t4)]"
    using assms(6) by simp
  then have "fst (serve W 3 [(k, t1), (k, t2), (k, t3), (k, t4)] s) k' = s k'"
    by (rule serve_other_key)
  then have other: "snd (rateLimiter W 3 k' t (fst (serve W 3 [(k, t1), (k, t2), (k, t3), (k, t4)] s))) =
      snd (rateLimiter W 3 k' t s)"
    by (rule outcome_depends_on_own_entry)
  from step four positive other show ?thesis
    by (intro conjI)
qed

text \<open>
  A window of one minute and a maximum of 3: four calls of one client within thirty
  milliseconds, then the first call of another client.
\<close>

theorem fixed_window_rate_limit_witness:
  "opens_window (Map.empty :: string \<rightharpoonup> entry) ''10.0.0.1'' 0 \<and>
   (0 :: int) \<le> 10 \<and> (10 :: int) \<le> 20 \<and> (20 :: int) \<le> 30 \<and> (30 :: int) < 0 + 60000 \<and>
   ''10.0.0.2'' \<noteq> ''10.0.0.1'' \<and>
   snd (serve 60000 3 [(''10.0.0.1'', 0), (''10.0.0.1'', 10), (''10.0.0.1'', 20),
          (''10.0.0.1'', 30)] Map.empty) =
     [Passed 2, Passed 1, Passed 0, TooManyRequests 60] \<and>
   snd (rateLimiter 60000 3 ''10.0.0.2'' 40
          (fst (serve 60000 3 [(''10.0.0.1'', 0), (''10.0.0.1'', 10), (''10.0.0.1'', 20),
                  (''10.0.0.1'', 30)] Map.empty))) = Passed 2"
proof -
  let ?calls = "[(''10.0.0.1'', 0), (''10.0.0.1'', 10), (''10.0.0.1'', 20), (''10.0.0.1'', 30)]"
  have h1: "opens_window (Map.empty :: string \<rightharpoonup> entry) ''10.0.0.1'' 0"
    by (simp add: opens_window_def)
  have h2: "(0 :: int) \<le> 10" and h3: "(10 :: int) \<le> 20" and h4: "(20 :: int) \<le> 30"
    and h5: "(30 :: int) < 0 + 60000"
    by simp_all
  have h6: "''10.0.0.2'' \<noteq> ''10.0.0.1''" by simp
  note limit = fixed_window_rate_limit [OF h1 h2 h3 h4 h5 h6, of 60000 3 "''10.0.0.1''" 0 Map.empty 40]
  have secs: "\<lceil>(of_int (0 + 60000 - 30) :: rat) / 1000\<rceil> = 60"
    by (simp add: rat_rounding)
  have "snd (serve 60000 3 ?calls Map.empty) =
      [Passed 2, Passed 1, Passed 0, TooManyRequests \<lceil>(of_int (0 + 60000 - 30) :: rat) / 1000\<rceil>]"
    using limit by (rule conjunct1 [OF conjunct2])
  then have four: "snd (serve 60000 3 ?calls Map.empty) =
      [Passed 2, Passed 1, Passed 0, TooManyRequests 60]"
    by (simp only: secs)
  have "snd (rateLimiter 60000 3 ''10.0.0.2'' 40 (fst (serve 60000 3 ?calls Map.empty))) =
      snd (rateLimiter 60000 3 ''10.0.0.2'' 40 Map.empty)"
    using limit by (rule conjunct2 [OF conjunct2 [OF conjunct2]])
  also have "\<dots> = Passed 2"
    by (simp add: rateLimiter_def Let_def)
  finally have other: "snd (rateLimiter 60000 3 ''10.0.0.2'' 40
      (fst (serve 60000 3 ?calls Map.empty))) = Passed 2" .
  from h1 h2 h3 h4 h5 h6 four other show ?thesis
    by (intro conjI)
qed

text \<open>
  Claim C9.  The reported hit rate is the exact ratio of the hits to the hits and
  misses together, and 0 when there are none; with 3 hits and 1 miss, and so after one
  miss followed by three hits counted from the start, it is 3/4.
\<close>

theorem hit_rate_ratio:
  "hitRate (stats st) =
     (if hits st + misses st = 0 then JNum 0
      else JNum (of_nat (hits st) / of_nat (hits st + misses st))) \<and>
   hitRate (stats \<lparr>hits = 3, misses = 1, sets = n\<rparr>) = JNum (3 / 4) \<and>
   hitRate (stats (fold countLookup [False, True, True, True] initialStats)) = JNum (3 / 4) \<and>
   hitRate (stats initialStats) = JNum 0"
  by (simp add: stats_def signed_inf_def countLookup_def initialStats_def)

section \<open>Properties of churn risk\<close>

lemma ts_foldl_later:
  "tx_timestamp (foldl later t rest) = fold max (map tx_timestamp rest) (tx_timestamp t)"
  by (induction rest arbitrary: t) (simp_all add: later_def max_def)

lemma ts_foldl_earlier:
  "tx_timestamp (foldl earlier t rest) = fold min (map tx_timestamp rest) (tx_timestamp t)"
  by (induction rest arbitrary: t) (simp_all add: earlier_def min_def)

lemma last_is_Max:
  "Transactions c = t0 # rest \<Longrightarrow> tx_timestamp (foldl later t0 rest) = lastPurchaseOf c"
  by (simp add: ts_foldl_later lastPurchaseOf_def Max.set_eq_fold [symmetric])

lemma first_is_Min:
  "Transactions c = t0 # rest \<Longrightarrow> tx_timestamp (foldl earlier t0 rest) = firstPurchaseOf c"
  by (simp add: ts_foldl_earlier firstPurchaseOf_def Min.set_eq_fold [symmetric])

lemma percentText_tiers:
  "percentText (9 / 10) = ''90%''" "percentText (7 / 10) = ''70%''"
  "percentText (4 / 10) = ''40%''" "percentText (2 / 5) = ''40%''"
  by (simp_all add: percentText_def rat_rounding digit_def)

lemma whole_day_comparisons:
  fixes d a :: int
  shows "((of_int d :: rat) > of_int a * 3) = (d > 3 * a)"
    and "((of_int d :: rat) > of_int a * 2) = (d > 2 * a)"
    and "((of_int d :: rat) > of_int a * (3 / 2)) = (2 * d > 3 * a)"
proof -
  have "(of_int a * 3 :: rat) = of_int (3 * a)" "(of_int a * 2 :: rat) = of_int (2 * a)"
    by simp_all
  then show "((of_int d :: rat) > of_int a * 3) = (d > 3 * a)"
    "((of_int d :: rat) > of_int a * 2) = (d > 2 * a)"
    by (simp_all only: of_int_less_iff)
  have "((of_int d :: rat) > of_int a * (3 / 2)) = ((of_int (2 * d) :: rat) > of_int (3 * a))"
    by (simp add: field_simps)
  then show "((of_int d :: rat) > of_int a * (3 / 2)) = (2 * d > 3 * a)"
    by (simp only: of_int_less_iff)
qed

lemma churnEntry_tiers:
  assumes "2 \<le> length (Transactions c)"
  shows "map_option
           (\<lambda>e. (riskLevel e, churnProbability e, daysSinceLastPurchase e,
                 avgDaysBetweenPurchases e))
           (churnEntry now c) =
         (let d = wholeDaysSince now c; a = wholeDaysBetween c in
          if d > 3 * a then Some (''critical'', ''90%'', d, a)
          else if d > 2 * a then Some (''high'', ''70%'', d, a)
          else if 2 * d > 3 * a then Some (''medium'', ''40%'', d, a)
          else None)"
proof -
  from assms obtain t0 rest where tx: "Transactions c = t0 # rest"
    by (cases "Transactions c") auto
  from assms tx have "rest \<noteq> []" by auto
  then show ?thesis
    by (simp add: churnEntry_def tx last_is_Max [OF tx] first_is_Min [OF tx] Let_def
        whole_day_comparisons percentText_tiers wholeDaysSince_def wholeDaysBetween_def
        del: of_int_mult of_int_numeral)
qed

lemma atRisk_set:
  "set (atRisk (identifyChurnRisk now cs)) = {e. \<exists>c \<in> set cs. churnEntry now c = Some e}"
  by (simp add: identifyChurnRisk_def Let_def set_map_filter)

text \<open>
  Claim C6, as stated, fails.  A customer bought twice, 10.9 days apart, and last
  bought 31 days ago.  The ratio of 31 days to the average interval of 10.9 days is
  310/109, between 2 and 3, which the claim classifies \<open>high\<close> with 0.7; the code
  compares 31 with three times the interval cut to 10 whole days and classifies
  \<open>critical\<close> with 90%.
\<close>

theorem churn_ratio_counterexample:
  "map_option (\<lambda>e. (riskLevel e, churnProbability e))
     (churnEntry (941760000 + 31 * msPerDay)
        \<lparr>customerId = 1, loyalty_tier = ''none'',
         Transactions = [\<lparr>tx_timestamp = 0, tx_amount = 10\<rparr>,
                         \<lparr>tx_timestamp = 941760000, tx_amount = 5\<rparr>]\<rparr>) =
     Some (''critical'', ''90%'') \<and>
   spec_churn_ratio (941760000 + 31 * msPerDay)
        \<lparr>customerId = 1, loyalty_tier = ''none'',
         Transactions = [\<lparr>tx_timestamp = 0, tx_amount = 10\<rparr>,
                         \<lparr>tx_timestamp = 941760000, tx_amount = 5\<rparr>]\<rparr> = 310 / 109 \<and>
   spec_churn_tier (310 / 109) = Some (''high'', 7 / 10)"
  by (simp add: churnEntry_def later_def earlier_def msPerDay_def Let_def percentText_tiers
      spec_churn_ratio_def spec_churn_tier_def lastPurchaseOf_def firstPurchaseOf_def)

text \<open>
  Claim C6, amended.  For a customer with at least 2 completed transactions let \<open>d\<close>
  be the whole days since the last purchase and \<open>a\<close> the whole days of the average
  interval, both rounded down.  The customer is \<open>critical\<close> with 90% when
  \<open>d > 3a\<close>, \<open>high\<close> with 70% when \<open>3a \<ge> d > 2a\<close>, \<open>medium\<close> with 40% when
  \<open>2a \<ge> d > 1.5a\<close>, and has no entry otherwise; the entries reported are exactly
  those of the customers that have one.
\<close>

theorem churn_tiers:
  assumes "2 \<le> length (Transactions c)"
  shows "map_option
           (\<lambda>e. (riskLevel e, churnProbability e, daysSinceLastPurchase e,
                 avgDaysBetweenPurchases e))
           (churnEntry now c) =
         (let d = (now - lastPurchaseOf c) div msPerDay;
              a = (lastPurchaseOf c - firstPurchaseOf c) div
                  (msPerDay * (int (length (Transactions c)) - 1))
          in if d > 3 * a then Some (''critical'', ''90%'', d, a)
             else if d > 2 * a then Some (''high'', ''70%'', d, a)
             else if 2 * d > 3 * a then Some (''medium'', ''40%'', d, a)
             else None) \<and>
         (e \<in> set (atRisk (identifyChurnRisk now cs)) \<longleftrightarrow>
            (\<exists>c' \<in> set cs. churnEntry now c' = Some e))"
  using churnEntry_tiers [OF assms, of now]
  by (simp add: atRisk_set wholeDaysSince_def wholeDaysBetween_def)

text \<open>
  Two transactions ten days apart and 35 days since the last one: \<open>critical\<close>, 90%.
\<close>

theorem churn_tiers_witness:
  "2 \<le> length (Transactions
      \<lparr>customerId = 1, loyalty_tier = ''gold'',
       Transactions = [\<lparr>tx_timestamp = 0, tx_amount = 10\<rparr>,
                       \<lparr>tx_timestamp = 10 * msPerDay, tx_amount = 5\<rparr>]\<rparr>) \<and>
   map_option
     (\<lambda>e. (riskLevel e, churnProbability e, daysSinceLastPurchase e, avgDaysBetweenPurchases e))
     (churnEntry (45 * msPerDay)
        \<lparr>customerId = 1, loyalty_tier = ''gold'',
         Transactions = [\<lparr>tx_timestamp = 0, tx_amount = 10\<rparr>,
                         \<lparr>tx_timestamp = 10 * msPerDay, tx_amount = 5\<rparr>]\<rparr>) =
     Some (''critical'', ''90%'', 35, 10)"
  using churn_tiers [of "\<lparr>customerId = 1, loyalty_tier = ''gold'',
         Transactions = [\<lparr>tx_timestamp = 0, tx_amount = 10\<rparr>,
                         \<lparr>tx_timestamp = 10 * msPerDay, tx_amount = 5\<rparr>]\<rparr>" "45 * msPerDay"]
  by (simp add: lastPurchaseOf_def firstPurchaseOf_def msPerDay_def Let_def)

section \<open>Properties of RFM segmentation\<close>

lemma findIndex_none: "\<forall>x \<in> set xs. \<not> P x \<Longrightarrow> findIndex P xs = - 1"
  by (induction xs) simp_all

text \<open>An \<^verbatim>\<open>undefined\<close> recency always scores 5, and a frequency of 0 always scores 1.\<close>

lemma rScore_of_undefined: "getScore (getPercentile arr None True) = 5"
proof -
  have "findIndex (\<lambda>v. geValue v None) (jsSort arr) = - 1"
    by (rule findIndex_none) (simp add: geValue_def split: option.splits)
  then show ?thesis
    by (cases "length (jsSort arr) = 0")
      (simp_all add: getPercentile_def getScore_def js_sub_def signed_inf_def Let_def
        divide_nonneg_nonneg)
qed

lemma fScore_of_zero:
  assumes "Some 0 \<in> set arr" and "\<forall>v \<in> set arr. \<exists>x. v = Some x \<and> 0 \<le> x"
  shows "getScore (getPercentile arr (Some 0) False) = 1"
proof -
  let ?nums = "List.map_filter (\<lambda>v. v) arr"
  have mem: "set ?nums = {x. Some x \<in> set arr}"
    by (auto simp: set_map_filter)
  with assms(1) have "0 \<in> set (sort ?nums)" by simp
  then obtain h rest where sorted: "sort ?nums = h # rest"
    by (cases "sort ?nums") auto
  then have "h \<in> set (sort ?nums)" by simp
  with mem assms(2) have "0 \<le> h" by auto
  then have "findIndex (\<lambda>v. geValue v (Some 0)) (jsSort arr) = 0"
    by (simp add: jsSort_def sorted geValue_def)
  moreover have "length (jsSort arr) \<noteq> 0"
    by (simp add: jsSort_def sorted)
  ultimately show ?thesis
    by (simp add: getPercentile_def getScore_def Let_def)
qed

lemma firstPass_empty:
  "Transactions c = [] \<Longrightarrow> firstPass now c =
     \<lparr>rowCustomer = customerId c, recency = Null, recencyDays = Undefined,
      frequency = 0, monetary = 0, rfmScore = Some ''111'', totalScore = None,
      segment = Some ''Lost''\<rparr>"
  by (simp add: firstPass_def)

lemma rfmData_eq:
  "rfmData (performRFMAnalysis now customers) =
     map (scoreRow
            (map (\<lambda>r. asNumber (recencyDays r))
               (filter (\<lambda>r. recencyDays r \<noteq> Null) (map (firstPass now) customers)))
            (map (\<lambda>r. Some (of_nat (frequency r))) (map (firstPass now) customers))
            (map (\<lambda>r. Some (monetary r)) (map (firstPass now) customers)))
       (map (firstPass now) customers)"
  by (simp only: performRFMAnalysis_def Let_def rfm_report.simps)

lemma scoreRow_without_transactions:
  assumes "Some 0 \<in> set fv" and "\<forall>v \<in> set fv. \<exists>x. v = Some x \<and> 0 \<le> x"
  shows "scoreRow rv fv mv
           \<lparr>rowCustomer = cid, recency = Null, recencyDays = Undefined,
            frequency = 0, monetary = 0, rfmScore = Some ''111'', totalScore = None,
            segment = Some ''Lost''\<rparr> =
         \<lparr>rowCustomer = cid, recency = Null, recencyDays = Undefined,
          frequency = 0, monetary = 0,
          rfmScore = Some (''51'' @ decimal (getScore (getPercentile mv (Some 0) False))),
          totalScore = Some (6 + getScore (getPercentile mv (Some 0) False)),
          segment = Some ''New Customers''\<rparr>"
proof -
  have f: "getScore (getPercentile fv (Some 0) False) = 1"
    using assms by (rule fScore_of_zero)
  have d: "decimal 5 = ''5''" "decimal (Suc 0) = ''1''"
    by (simp_all add: digit_def)
  have new: "assignSegment 5 (Suc 0) m = ''New Customers''" for m
    by (simp add: assignSegment_def)
  show ?thesis
    by (simp add: scoreRow_def Let_def asNumber_def rScore_of_undefined f new d
        del: decimal.simps)
qed

text \<open>
  Claim C7 is what the code sets out to do and misses.  The row of a customer
  without transactions is pushed as \<open>Lost\<close> with code \<open>111\<close>, but the second loop does
  not skip it: the row has no \<^verbatim>\<open>recencyDays\<close>, and \<^verbatim>\<open>undefined === null\<close> is false.
  The row is scored like any other, the recency score 5 and the frequency score 1,
  whatever the population, and is overwritten with the segment \<open>New Customers\<close> and
  a code that starts with 51.
\<close>

theorem customers_without_transactions_are_rescored:
  assumes "i < length customers" and "Transactions (customers ! i) = []"
  shows "rowCustomer (rfmData (performRFMAnalysis now customers) ! i) =
           customerId (customers ! i) \<and>
         segment (rfmData (performRFMAnalysis now customers) ! i) = Some ''New Customers'' \<and>
         (\<exists>m. rfmScore (rfmData (performRFMAnalysis now customers) ! i) =
                 Some (''51'' @ decimal m))"
proof -
  let ?pushed = "map (firstPass now) customers"
  let ?rv = "map (\<lambda>r. asNumber (recencyDays r)) (filter (\<lambda>r. recencyDays r \<noteq> Null) ?pushed)"
  let ?fv = "map (\<lambda>r. Some (of_nat (frequency r) :: rat)) ?pushed"
  let ?mv = "map (\<lambda>r. Some (monetary r)) ?pushed"
  have "customers ! i \<in> set customers"
    using assms(1) by (rule nth_mem)
  then have "Some (of_nat (frequency (firstPass now (customers ! i)))) \<in> set ?fv"
    by auto
  then have zero: "Some 0 \<in> set ?fv"
    by (simp add: firstPass_empty [OF assms(2)])
  have nonneg: "\<forall>v \<in> set ?fv. \<exists>x. v = Some x \<and> 0 \<le> x"
    by auto
  have "rfmData (performRFMAnalysis now customers) ! i =
      scoreRow ?rv ?fv ?mv (firstPass now (customers ! i))"
    using assms(1) by (simp only: rfmData_eq nth_map length_map)
  also have "\<dots> = \<lparr>rowCustomer = customerId (customers ! i), recency = Null,
          recencyDays = Undefined, frequency = 0, monetary = 0,
          rfmScore = Some (''51'' @ decimal (getScore (getPercentile ?mv (Some 0) False))),
          totalScore = Some (6 + getScore (getPercentile ?mv (Some 0) False)),
          segment = Some ''New Customers''\<rparr>"
    unfolding firstPass_empty [OF assms(2)]
    using zero nonneg by (rule scoreRow_without_transactions)
  finally show ?thesis
    by (simp del: decimal.simps) blast
qed

text \<open>
  The only customer of a population, without transactions: segment \<open>New Customers\<close>,
  code \<open>511\<close>, where the claim has \<open>Lost\<close> and \<open>111\<close>.
\<close>

theorem customers_without_transactions_are_rescored_witness:
  "(0 :: nat) < length [\<lparr>customerId = 7, loyalty_tier = ''none'', Transactions = []\<rparr>] \<and>
   Transactions ([\<lparr>customerId = 7, loyalty_tier = ''none'', Transactions = []\<rparr>] ! 0) = [] \<and>
   rfmData (performRFMAnalysis 0 [\<lparr>customerId = 7, loyalty_tier = ''none'', Transactions = []\<rparr>]) =
     [\<lparr>rowCustomer = 7, recency = Null, recencyDays = Undefined, frequency = 0, monetary = 0,
       rfmScore = Some ''511'', totalScore = Some 7, segment = Some ''New Customers''\<rparr>] \<and>
   segment (rfmData (performRFMAnalysis 0
       [\<lparr>customerId = 7, loyalty_tier = ''none'', Transactions = []\<rparr>]) ! 0) =
     Some ''New Customers''"
proof -
  let ?cs = "[\<lparr>customerId = 7, loyalty_tier = ''none'', Transactions = []\<rparr>]"
  have h1: "(0 :: nat) < length ?cs" by simp
  have h2: "Transactions (?cs ! 0) = []" by simp
  have seg: "segment (rfmData (performRFMAnalysis 0 ?cs) ! 0) = Some ''New Customers''"
    using customers_without_transactions_are_rescored [OF h1 h2, of 0]
    by (rule conjunct1 [OF conjunct2])
  have row: "rfmData (performRFMAnalysis 0 ?cs) =
     [\<lparr>rowCustomer = 7, recency = Null, recencyDays = Undefined, frequency = 0, monetary = 0,
       rfmScore = Some ''511'', totalScore = Some 7, segment = Some ''New Customers''\<rparr>]"
    by (simp add: rfmData_eq firstPass_def scoreRow_def asNumber_def getPercentile_def
        jsSort_def geValue_def getScore_def assignSegment_def js_sub_def Let_def digit_def)
  from h1 h2 row seg show ?thesis
    by (intro conjI)
qed

end
